theory Spec2Isabelle
  imports Complex_Main
begin

section \<open>Python values used by the scheduler\<close>

text \<open>
  A Python \<open>str\<close> is a sequence of Unicode code points; the shift labels of the source
  are the one-character strings U+65E9, U+4E2D and U+665A.
\<close>

type_synonym pystr = "nat list"

definition ustr :: "string \<Rightarrow> pystr" where
  "ustr cs = map of_char cs"

definition Morning :: pystr where "Morning = [26089]"
definition Midday :: pystr where "Midday = [20013]"
definition Evening :: pystr where "Evening = [26202]"

text \<open>
  A \<open>datetime.date\<close> is represented by its proleptic Gregorian ordinal
  (\<open>date.toordinal()\<close>): \<open>date.min\<close> is 1 (Monday 0001-01-01) and \<open>date.max\<close> is
  3652059 (9999-12-31). Adding a \<open>timedelta\<close> raises \<open>OverflowError\<close> when the result
  leaves that range.
\<close>

type_synonym date = int

datatype error = OverflowError

definition date_min :: date where "date_min = 1"
definition date_max :: date where "date_max = 3652059"

definition weekday :: "date \<Rightarrow> int" where
  "weekday d = (d + 6) mod 7"

definition date_add :: "date \<Rightarrow> int \<Rightarrow> error + date" where
  "date_add d days =
     (if date_min \<le> d + days \<and> d + days \<le> date_max then Inr (d + days) else Inl OverflowError)"

section \<open>data/models.py\<close>

record Employee =
  name :: pystr
  is_leader :: bool
  can_inject :: bool
  available_shifts :: "int \<rightharpoonup> pystr list"
  is_fulltime :: bool

definition can_work_on :: "Employee \<Rightarrow> int \<Rightarrow> pystr \<Rightarrow> bool" where
  "can_work_on emp dow st =
     (case available_shifts emp dow of
        None \<Rightarrow> False
      | Some sts \<Rightarrow> st \<in> set sts)"

record ShiftRequirement =
  day_of_week :: int
  req_shift_time :: pystr
  num_people :: int
  num_leaders :: int
  num_injectors :: int
  num_leader_or_injector :: int

record TimeOffRequest =
  to_employee_name :: pystr
  to_date :: date
  to_shift_time :: pystr

record PreAssignedShift =
  pa_employee_name :: pystr
  pa_date :: date
  pa_shift_time :: pystr

record Shift =
  date :: date
  shift_time :: pystr
  assigned_employees :: "Employee list"

definition has_employee :: "Shift \<Rightarrow> pystr \<Rightarrow> bool" where
  "has_employee sh employee_name = list_ex (\<lambda>emp. name emp = employee_name) (assigned_employees sh)"

definition count_leaders :: "Shift \<Rightarrow> int" where
  "count_leaders sh = int (length (filter is_leader (assigned_employees sh)))"

definition count_injectors :: "Shift \<Rightarrow> int" where
  "count_injectors sh = int (length (filter can_inject (assigned_employees sh)))"

definition count_leader_or_injector :: "Shift \<Rightarrow> int" where
  "count_leader_or_injector sh =
     int (length (filter (\<lambda>emp. is_leader emp \<or> can_inject emp) (assigned_employees sh)))"

record Schedule =
  shifts :: "Shift list"

text \<open>The loop of \<open>Schedule.get_shift\<close>: return at the first match, \<open>None\<close> after the loop.\<close>

fun get_shift_loop :: "Shift list \<Rightarrow> date \<Rightarrow> pystr \<Rightarrow> Shift option" where
  "get_shift_loop [] target_date st = None"
| "get_shift_loop (sh # rest) target_date st =
     (if date sh = target_date \<and> shift_time sh = st then Some sh
      else get_shift_loop rest target_date st)"

definition get_shift :: "Schedule \<Rightarrow> date \<Rightarrow> pystr \<Rightarrow> Shift option" where
  "get_shift sched target_date st = get_shift_loop (shifts sched) target_date st"

definition get_employee_shifts :: "Schedule \<Rightarrow> pystr \<Rightarrow> Shift list" where
  "get_employee_shifts sched employee_name =
     filter (\<lambda>sh. has_employee sh employee_name) (shifts sched)"

section \<open>scheduler/constraints.py\<close>

definition validate_shift_requirements :: "Shift \<Rightarrow> ShiftRequirement \<Rightarrow> bool \<Rightarrow> bool" where
  "validate_shift_requirements sh requirement relaxed =
     (if int (length (assigned_employees sh)) \<noteq> num_people requirement then False
      else if (if relaxed then count_leaders sh < num_leaders requirement div 2
               else count_leaders sh < num_leaders requirement) then False
      else if (if relaxed then count_injectors sh < num_injectors requirement div 2
               else count_injectors sh < num_injectors requirement) then False
      else if (if relaxed
               then count_leader_or_injector sh < num_leader_or_injector requirement div 2
               else count_leader_or_injector sh < num_leader_or_injector requirement) then False
      else True)"

text \<open>
  \<open>defaultdict(list)\<close>: an association list in insertion order of the keys; appending
  under a key that is absent creates its entry at the end.
\<close>

fun dd_append :: "'k \<Rightarrow> 'v \<Rightarrow> ('k \<times> 'v list) list \<Rightarrow> ('k \<times> 'v list) list" where
  "dd_append k v [] = [(k, [v])]"
| "dd_append k v ((k', vs) # rest) =
     (if k = k' then (k', vs @ [v]) # rest else (k', vs) # dd_append k v rest)"

definition week_start_of :: "date \<Rightarrow> date" where
  "week_start_of d = d - weekday d"

definition group_by_week :: "Shift list \<Rightarrow> (date \<times> Shift list) list" where
  "group_by_week employee_shifts =
     foldl (\<lambda>weekly sh. dd_append (week_start_of (date sh)) sh weekly) [] employee_shifts"

text \<open>
  \<open>week_dates\<close>: the seven dates \<open>week_start + timedelta(days=i)\<close>; the addition raises
  in the last week of year 9999.
\<close>

fun week_dates_loop :: "date \<Rightarrow> int list \<Rightarrow> error + date list" where
  "week_dates_loop week_start [] = Inr []"
| "week_dates_loop week_start (i # is) =
     (case date_add week_start i of
        Inl e \<Rightarrow> Inl e
      | Inr d \<Rightarrow> (case week_dates_loop week_start is of
                   Inl e \<Rightarrow> Inl e
                 | Inr ds \<Rightarrow> Inr (d # ds)))"

definition check_week :: "bool \<Rightarrow> bool \<Rightarrow> date \<Rightarrow> Shift list \<Rightarrow> error + bool" where
  "check_week relaxed_shifts relaxed_days_off week_start shs =
     (if (if relaxed_shifts then length shs < 8 \<or> length shs > 10 else length shs \<noteq> 10)
      then Inr False
      else (let work_days = set (map date shs) in
            case week_dates_loop week_start [0, 1, 2, 3, 4, 5, 6] of
              Inl e \<Rightarrow> Inl e
            | Inr ds \<Rightarrow>
               (let week_dates = set ds;
                    days_off = card (week_dates - work_days) in
                if (if relaxed_days_off then days_off < 1 else days_off \<noteq> 2)
                then Inr False else Inr True)))"

text \<open>The loop over the weeks: the first failing week returns \<open>False\<close>.\<close>

fun check_weeks :: "bool \<Rightarrow> bool \<Rightarrow> (date \<times> Shift list) list \<Rightarrow> error + bool" where
  "check_weeks relaxed_shifts relaxed_days_off [] = Inr True"
| "check_weeks relaxed_shifts relaxed_days_off ((week_start, shs) # rest) =
     (case check_week relaxed_shifts relaxed_days_off week_start shs of
        Inl e \<Rightarrow> Inl e
      | Inr False \<Rightarrow> Inr False
      | Inr True \<Rightarrow> check_weeks relaxed_shifts relaxed_days_off rest)"

definition validate_fulltime_constraints ::
  "Schedule \<Rightarrow> Employee \<Rightarrow> bool \<Rightarrow> bool \<Rightarrow> error + bool" where
  "validate_fulltime_constraints sched employee relaxed_shifts relaxed_days_off =
     (if \<not> is_fulltime employee then Inr True
      else check_weeks relaxed_shifts relaxed_days_off
             (group_by_week (get_employee_shifts sched (name employee))))"

fun time_off_loop :: "TimeOffRequest list \<Rightarrow> Employee \<Rightarrow> Shift \<Rightarrow> bool" where
  "time_off_loop [] employee sh = True"
| "time_off_loop (request # rest) employee sh =
     (if to_employee_name request = name employee \<and> to_date request = date sh
         \<and> to_shift_time request = shift_time sh
      then False else time_off_loop rest employee sh)"

definition validate_availability :: "Shift \<Rightarrow> Employee \<Rightarrow> TimeOffRequest list \<Rightarrow> bool" where
  "validate_availability sh employee time_off_requests =
     (let dow = weekday (date sh) + 1 in
      if \<not> can_work_on employee dow (shift_time sh) then False
      else time_off_loop time_off_requests employee sh)"

section \<open>The CP-SAT model (ortools.sat.python.cp_model)\<close>

text \<open>
  The solver library is not part of the repository. Its model is kept as data: Boolean
  variables are numbered in creation order (\<open>NewBoolVar\<close>), linear expressions are the
  terms the Python operators build, and a constraint is a comparison of two expressions or
  a \<open>AddMaxEquality\<close>. An assignment gives every variable a truth value.
\<close>

datatype lexp = Num int | BoolVar nat | Plus lexp lexp | Minus lexp lexp | Times int lexp

datatype constr = EqC lexp lexp | GeC lexp lexp | LeC lexp lexp | MaxEquality nat "nat list"

record cp_model =
  num_vars :: nat
  constraints :: "constr list"
  objective :: "lexp option"

definition CpModel :: cp_model where
  "CpModel = \<lparr>num_vars = 0, constraints = [], objective = None\<rparr>"

definition NewBoolVar :: "cp_model \<Rightarrow> nat \<times> cp_model" where
  "NewBoolVar m = (num_vars m, m\<lparr>num_vars := num_vars m + 1\<rparr>)"

definition Add :: "constr \<Rightarrow> cp_model \<Rightarrow> cp_model" where
  "Add c m = m\<lparr>constraints := constraints m @ [c]\<rparr>"

definition add_all :: "constr list \<Rightarrow> cp_model \<Rightarrow> cp_model" where
  "add_all cs m = foldl (\<lambda>m' c. Add c m') m cs"

definition Maximize :: "lexp \<Rightarrow> cp_model \<Rightarrow> cp_model" where
  "Maximize e m = m\<lparr>objective := Some e\<rparr>"

text \<open>Python's \<open>sum(xs)\<close> starts from the integer 0 and adds the elements from the left.\<close>

definition py_sum :: "lexp list \<Rightarrow> lexp" where
  "py_sum es = foldl Plus (Num 0) es"

fun lval :: "(nat \<Rightarrow> bool) \<Rightarrow> lexp \<Rightarrow> int" where
  "lval \<sigma> (Num k) = k"
| "lval \<sigma> (BoolVar v) = (if \<sigma> v then 1 else 0)"
| "lval \<sigma> (Plus a b) = lval \<sigma> a + lval \<sigma> b"
| "lval \<sigma> (Minus a b) = lval \<sigma> a - lval \<sigma> b"
| "lval \<sigma> (Times k a) = k * lval \<sigma> a"

fun holds :: "(nat \<Rightarrow> bool) \<Rightarrow> constr \<Rightarrow> bool" where
  "holds \<sigma> (EqC a b) = (lval \<sigma> a = lval \<sigma> b)"
| "holds \<sigma> (GeC a b) = (lval \<sigma> a \<ge> lval \<sigma> b)"
| "holds \<sigma> (LeC a b) = (lval \<sigma> a \<le> lval \<sigma> b)"
| "holds \<sigma> (MaxEquality t vs) = (\<sigma> t = list_ex \<sigma> vs)"

definition satisfies :: "(nat \<Rightarrow> bool) \<Rightarrow> cp_model \<Rightarrow> bool" where
  "satisfies \<sigma> m = list_all (holds \<sigma>) (constraints m)"


datatype cp_status = UNKNOWN | MODEL_INVALID | FEASIBLE | INFEASIBLE | OPTIMAL

fun StatusName :: "cp_status \<Rightarrow> string" where
  "StatusName UNKNOWN = ''UNKNOWN''"
| "StatusName MODEL_INVALID = ''MODEL_INVALID''"
| "StatusName FEASIBLE = ''FEASIBLE''"
| "StatusName INFEASIBLE = ''INFEASIBLE''"
| "StatusName OPTIMAL = ''OPTIMAL''"

text \<open>What the solver object reports after \<open>Solve\<close>.\<close>

record solver_response =
  status :: cp_status
  Value :: "nat \<Rightarrow> bool"
  NumConflicts :: int
  NumBranches :: int
  WallTime :: real

section \<open>scheduler/ortools_scheduler.py\<close>

record ORToolsScheduler =
  employees :: "Employee list"
  requirements :: "ShiftRequirement list"
  time_off_requests :: "TimeOffRequest list"
  pre_assigned_shifts :: "PreAssignedShift list"
  start_date :: date
  num_weeks :: int
  max_time_seconds :: int
  relaxed_requirements :: bool
  relaxed_shifts :: bool
  relaxed_days_off :: bool
  requirement_map :: "(int \<times> pystr) \<rightharpoonup> ShiftRequirement"
  employee_map :: "pystr \<rightharpoonup> Employee"
  model :: cp_model

text \<open>\<open>__init__\<close>; \<open>num_weeks\<close> defaults to 4 and \<open>max_time_seconds\<close> to 300 at the call.\<close>

definition init ::
  "Employee list \<Rightarrow> ShiftRequirement list \<Rightarrow> TimeOffRequest list \<Rightarrow> PreAssignedShift list
     \<Rightarrow> date \<Rightarrow> int \<Rightarrow> int \<Rightarrow> ORToolsScheduler" where
  "init emps reqs time_off pre start weeks max_time =
     \<lparr>employees = emps, requirements = reqs, time_off_requests = time_off,
      pre_assigned_shifts = pre, start_date = start, num_weeks = weeks,
      max_time_seconds = max_time,
      relaxed_requirements = False, relaxed_shifts = False, relaxed_days_off = False,
      requirement_map =
        foldl (\<lambda>rm req. rm((day_of_week req, req_shift_time req) \<mapsto> req)) Map.empty reqs,
      employee_map = foldl (\<lambda>em emp. em(name emp \<mapsto> emp)) Map.empty emps,
      model = CpModel\<rparr>"

text \<open>
  \<open>relax_constraints(requirements=False, shifts=False, days_off=False)\<close>: an argument
  that the call omits is \<open>None\<close> here and takes its default.
\<close>

definition relax_constraints ::
  "bool option \<Rightarrow> bool option \<Rightarrow> bool option \<Rightarrow> ORToolsScheduler \<Rightarrow> ORToolsScheduler" where
  "relax_constraints requirements_arg shifts_arg days_off_arg self =
     self\<lparr>relaxed_requirements := (case requirements_arg of None \<Rightarrow> False | Some b \<Rightarrow> b),
          relaxed_shifts := (case shifts_arg of None \<Rightarrow> False | Some b \<Rightarrow> b),
          relaxed_days_off := (case days_off_arg of None \<Rightarrow> False | Some b \<Rightarrow> b)\<rparr>"

definition empty_shift :: "date \<Rightarrow> pystr \<Rightarrow> Shift" where
  "empty_shift d st = \<lparr>date = d, shift_time = st, assigned_employees = []\<rparr>"

text \<open>
  The two outer loops of \<open>generate_month_template\<close> run over the day offsets
  \<open>7 * week + day\<close> of \<open>timedelta(weeks=week, days=day)\<close>; the inner loop emits the three
  shift times of the day.
\<close>

fun template_loop :: "date \<Rightarrow> int list \<Rightarrow> error + Shift list" where
  "template_loop start [] = Inr []"
| "template_loop start (off # offs) =
     (case date_add start off of
        Inl e \<Rightarrow> Inl e
      | Inr current_date \<Rightarrow>
         (case template_loop start offs of
            Inl e \<Rightarrow> Inl e
          | Inr rest \<Rightarrow> Inr (map (empty_shift current_date) [Morning, Midday, Evening] @ rest)))"

definition day_offsets :: "int \<Rightarrow> int list" where
  "day_offsets weeks =
     concat (map (\<lambda>week. map (\<lambda>day. 7 * int week + day) [0, 1, 2, 3, 4, 5, 6])
                 [0..<nat weeks])"

definition generate_month_template :: "ORToolsScheduler \<Rightarrow> error + Shift list" where
  "generate_month_template self = template_loop (start_date self) (day_offsets (num_weeks self))"

text \<open>\<open>_create_variables\<close>: \<open>shift_vars[emp_idx][shift_idx]\<close> as a list of rows.\<close>

fun create_row :: "Shift list \<Rightarrow> cp_model \<Rightarrow> nat list \<times> cp_model" where
  "create_row [] m = ([], m)"
| "create_row (sh # rest) m =
     (let (v, m1) = NewBoolVar m; (vs, m2) = create_row rest m1 in (v # vs, m2))"

fun create_rows :: "Employee list \<Rightarrow> Shift list \<Rightarrow> cp_model \<Rightarrow> nat list list \<times> cp_model" where
  "create_rows [] shs m = ([], m)"
| "create_rows (employee # rest) shs m =
     (let (row, m1) = create_row shs m; (rows, m2) = create_rows rest shs m1
      in (row # rows, m2))"

definition create_variables ::
  "ORToolsScheduler \<Rightarrow> Shift list \<Rightarrow> cp_model \<Rightarrow> nat list list \<times> cp_model" where
  "create_variables self shs m = create_rows (employees self) shs m"

definition availability_constraints ::
  "ORToolsScheduler \<Rightarrow> Shift list \<Rightarrow> nat list list \<Rightarrow> constr list" where
  "availability_constraints self shs shift_vars =
     concat (map (\<lambda>(emp_idx, employee).
       concat (map (\<lambda>(shift_idx, sh).
         if \<not> validate_availability sh employee (time_off_requests self)
         then [EqC (BoolVar (shift_vars ! emp_idx ! shift_idx)) (Num 0)] else [])
         (enumerate 0 shs)))
       (enumerate 0 (employees self)))"

definition add_availability_constraints ::
  "ORToolsScheduler \<Rightarrow> Shift list \<Rightarrow> nat list list \<Rightarrow> cp_model \<Rightarrow> cp_model" where
  "add_availability_constraints self shs shift_vars m =
     add_all (availability_constraints self shs shift_vars) m"

text \<open>An \<open>enumerate\<close> loop that stops at the first element passing the test.\<close>

fun first_index :: "('a \<Rightarrow> bool) \<Rightarrow> nat \<Rightarrow> 'a list \<Rightarrow> nat option" where
  "first_index P i [] = None"
| "first_index P i (x # xs) = (if P x then Some i else first_index P (Suc i) xs)"

definition pre_assignment_constraint ::
  "ORToolsScheduler \<Rightarrow> Shift list \<Rightarrow> nat list list \<Rightarrow> PreAssignedShift \<Rightarrow> constr list" where
  "pre_assignment_constraint self shs shift_vars pre =
     (case first_index (\<lambda>sh. date sh = pa_date pre \<and> shift_time sh = pa_shift_time pre) 0 shs of
        None \<Rightarrow> []
      | Some shift_idx \<Rightarrow>
         (case first_index (\<lambda>employee. name employee = pa_employee_name pre) 0 (employees self) of
            None \<Rightarrow> []
          | Some emp_idx \<Rightarrow> [EqC (BoolVar (shift_vars ! emp_idx ! shift_idx)) (Num 1)]))"

definition add_pre_assignment_constraints ::
  "ORToolsScheduler \<Rightarrow> Shift list \<Rightarrow> nat list list \<Rightarrow> cp_model \<Rightarrow> cp_model" where
  "add_pre_assignment_constraints self shs shift_vars m =
     add_all (concat (map (pre_assignment_constraint self shs shift_vars)
                          (pre_assigned_shifts self))) m"

definition indices_where :: "(Employee \<Rightarrow> bool) \<Rightarrow> Employee list \<Rightarrow> nat list" where
  "indices_where P emps = map fst (filter (\<lambda>(i, emp). P emp) (enumerate 0 emps))"

definition capability_minimum :: "bool \<Rightarrow> int \<Rightarrow> int" where
  "capability_minimum relaxed n = (if relaxed then n div 2 else n)"

text \<open>The body of the loop of \<open>_add_shift_requirement_constraints\<close> for a slot with a requirement.\<close>

definition shift_requirement_constraints ::
  "ORToolsScheduler \<Rightarrow> nat list list \<Rightarrow> nat \<Rightarrow> ShiftRequirement \<Rightarrow> constr list" where
  "shift_requirement_constraints self shift_vars shift_idx requirement =
     (let leader_indices = indices_where is_leader (employees self);
          injector_indices = indices_where can_inject (employees self);
          leader_or_injector_indices =
            indices_where (\<lambda>emp. is_leader emp \<or> can_inject emp) (employees self);
          total_assigned =
            map (\<lambda>i. BoolVar (shift_vars ! i ! shift_idx)) [0..<length (employees self)];
          min_leaders = capability_minimum (relaxed_requirements self) (num_leaders requirement);
          leader_assigned = map (\<lambda>i. BoolVar (shift_vars ! i ! shift_idx)) leader_indices;
          min_injectors =
            capability_minimum (relaxed_requirements self) (num_injectors requirement);
          injector_assigned = map (\<lambda>i. BoolVar (shift_vars ! i ! shift_idx)) injector_indices;
          min_leader_or_injector =
            capability_minimum (relaxed_requirements self) (num_leader_or_injector requirement);
          leader_or_injector_assigned =
            map (\<lambda>i. BoolVar (shift_vars ! i ! shift_idx)) leader_or_injector_indices
      in [EqC (py_sum total_assigned) (Num (num_people requirement))]
         @ (if leader_assigned \<noteq> [] then [GeC (py_sum leader_assigned) (Num min_leaders)] else [])
         @ (if injector_assigned \<noteq> []
            then [GeC (py_sum injector_assigned) (Num min_injectors)] else [])
         @ (if leader_or_injector_assigned \<noteq> []
            then [GeC (py_sum leader_or_injector_assigned) (Num min_leader_or_injector)]
            else []))"

definition add_shift_requirement_constraints ::
  "ORToolsScheduler \<Rightarrow> Shift list \<Rightarrow> nat list list \<Rightarrow> cp_model \<Rightarrow> cp_model" where
  "add_shift_requirement_constraints self shs shift_vars m =
     add_all (concat (map (\<lambda>(shift_idx, sh).
        case requirement_map self (weekday (date sh) + 1, shift_time sh) of
          None \<Rightarrow> []
        | Some requirement \<Rightarrow> shift_requirement_constraints self shift_vars shift_idx requirement)
        (enumerate 0 shs))) m"

definition shifts_by_date :: "(nat \<times> Shift) list \<Rightarrow> (date \<times> nat list) list" where
  "shifts_by_date indexed =
     foldl (\<lambda>groups (shift_idx, sh). dd_append (date sh) shift_idx groups) [] indexed"

definition add_daily_limit_constraints ::
  "ORToolsScheduler \<Rightarrow> Shift list \<Rightarrow> nat list list \<Rightarrow> cp_model \<Rightarrow> cp_model" where
  "add_daily_limit_constraints self shs shift_vars m =
     add_all (concat (map (\<lambda>emp_idx.
        map (\<lambda>(date_val, shift_indices).
          LeC (py_sum (map (\<lambda>s_idx. BoolVar (shift_vars ! emp_idx ! s_idx)) shift_indices)) (Num 3))
          (shifts_by_date (enumerate 0 shs)))
        [0..<length (employees self)])) m"

text \<open>
  \<open>_add_fulltime_weekly_constraints\<close> groups the slots by \<open>date.isocalendar()[:2]\<close>, the
  ISO year and week number. Two dates share that pair exactly when they share the Monday
  of their week, so the key is represented by that Monday.
\<close>

definition weeks_of :: "Shift list \<Rightarrow> (date \<times> (nat \<times> Shift) list) list" where
  "weeks_of shs =
     foldl (\<lambda>weeks (shift_idx, sh). dd_append (week_start_of (date sh)) (shift_idx, sh) weeks)
           [] (enumerate 0 shs)"

fun working_day_loop ::
  "nat list \<Rightarrow> (date \<times> nat list) list \<Rightarrow> cp_model \<Rightarrow> nat list \<times> cp_model" where
  "working_day_loop row [] m = ([], m)"
| "working_day_loop row ((date_val, day_shift_indices) # rest) m =
     (let (day_var, m1) = NewBoolVar m;
          m2 = Add (MaxEquality day_var (map (\<lambda>s_idx. row ! s_idx) day_shift_indices)) m1;
          (day_vars, m3) = working_day_loop row rest m2
      in (day_var # day_vars, m3))"

definition fulltime_week ::
  "ORToolsScheduler \<Rightarrow> nat list list \<Rightarrow> nat \<Rightarrow> cp_model \<Rightarrow> date \<times> (nat \<times> Shift) list
     \<Rightarrow> cp_model" where
  "fulltime_week self shift_vars emp_idx m wk =
     (let week_shifts = snd wk;
          shift_indices = map fst week_shifts;
          weekly_shift_vars = map (\<lambda>s_idx. BoolVar (shift_vars ! emp_idx ! s_idx)) shift_indices;
          m1 = (if relaxed_shifts self
                then Add (LeC (py_sum weekly_shift_vars) (Num 10))
                       (Add (GeC (py_sum weekly_shift_vars) (Num 8)) m)
                else Add (EqC (py_sum weekly_shift_vars) (Num 10)) m);
          (work_days, m2) =
            working_day_loop (shift_vars ! emp_idx) (shifts_by_date week_shifts) m1
      in if relaxed_days_off self
         then Add (LeC (py_sum (map BoolVar work_days)) (Num 6)) m2
         else Add (LeC (py_sum (map BoolVar work_days)) (Num 5)) m2)"

definition add_fulltime_weekly_constraints ::
  "ORToolsScheduler \<Rightarrow> Shift list \<Rightarrow> nat list list \<Rightarrow> cp_model \<Rightarrow> cp_model" where
  "add_fulltime_weekly_constraints self shs shift_vars m =
     foldl (\<lambda>m' (emp_idx, employee).
              if \<not> is_fulltime employee then m'
              else foldl (fulltime_week self shift_vars emp_idx) m' (weeks_of shs))
           m (enumerate 0 (employees self))"

definition add_constraints ::
  "ORToolsScheduler \<Rightarrow> Shift list \<Rightarrow> nat list list \<Rightarrow> cp_model \<Rightarrow> cp_model" where
  "add_constraints self shs shift_vars m =
     add_fulltime_weekly_constraints self shs shift_vars
       (add_daily_limit_constraints self shs shift_vars
         (add_shift_requirement_constraints self shs shift_vars
           (add_pre_assignment_constraints self shs shift_vars
             (add_availability_constraints self shs shift_vars m))))"

text \<open>
  The body of the loops of \<open>_add_objective\<close> for one employee and one date: the state is
  the model and the list \<open>bonus_vars\<close>.
\<close>

definition daily_sum :: "nat list list \<Rightarrow> nat \<Rightarrow> nat list \<Rightarrow> lexp" where
  "daily_sum shift_vars emp_idx shift_indices =
     py_sum (map (\<lambda>s_idx. BoolVar (shift_vars ! emp_idx ! s_idx)) shift_indices)"

definition objective_day ::
  "nat list list \<Rightarrow> nat \<Rightarrow> cp_model \<times> nat list \<Rightarrow> date \<times> nat list \<Rightarrow> cp_model \<times> nat list" where
  "objective_day shift_vars emp_idx acc day =
     (let shift_indices = snd day in
      if length shift_indices < 2 then acc
      else (let (bonus_var, m1) = NewBoolVar (fst acc);
                m2 = Add (GeC (daily_sum shift_vars emp_idx shift_indices)
                              (Times 2 (BoolVar bonus_var))) m1;
                m3 = Add (LeC (daily_sum shift_vars emp_idx shift_indices)
                              (Plus (Num 2)
                                 (Times (int (length shift_indices) - 2)
                                    (Minus (Num 1) (BoolVar bonus_var))))) m2
            in (m3, snd acc @ [bonus_var])))"

definition objective_loop ::
  "ORToolsScheduler \<Rightarrow> Shift list \<Rightarrow> nat list list \<Rightarrow> cp_model \<Rightarrow> cp_model \<times> nat list" where
  "objective_loop self shs shift_vars m =
     foldl (\<lambda>acc emp_idx. foldl (objective_day shift_vars emp_idx) acc
                             (shifts_by_date (enumerate 0 shs)))
           (m, []) [0..<length (employees self)]"

definition add_objective ::
  "ORToolsScheduler \<Rightarrow> Shift list \<Rightarrow> nat list list \<Rightarrow> cp_model \<Rightarrow> cp_model" where
  "add_objective self shs shift_vars m =
     (let (m1, bonus_vars) = objective_loop self shs shift_vars m in
      if bonus_vars \<noteq> [] then Maximize (Times 10 (py_sum (map BoolVar bonus_vars))) m1
      else m1)"




definition parse_solution ::
  "ORToolsScheduler \<Rightarrow> Shift list \<Rightarrow> nat list list \<Rightarrow> solver_response \<Rightarrow> Schedule" where
  "parse_solution self shs shift_vars response =
     \<lparr>shifts = map (\<lambda>(shift_idx, sh).
         \<lparr>date = date sh, shift_time = shift_time sh,
          assigned_employees =
            map snd (filter (\<lambda>(emp_idx, employee). Value response (shift_vars ! emp_idx ! shift_idx))
                            (enumerate 0 (employees self)))\<rparr>)
         (enumerate 0 shs)\<rparr>"

record diagnostics =
  solver_status :: string
  solve_time :: real
  num_conflicts :: int
  num_branches :: int
  wall_time :: real
  diag_relaxed_requirements :: bool
  diag_relaxed_shifts :: bool
  diag_relaxed_days_off :: bool
  valid_count :: nat

text \<open>
  \<open>generate_schedules\<close>. The solver is a parameter \<open>Solve\<close>, given the time limit and
  the model; \<open>elapsed\<close> is the measured \<open>time.time() - start_time\<close>. The method adds to
  \<open>self.model\<close>, so the scheduler is returned with the model it solved. The printed
  progress lines and the printed summary are not part of the result.
\<close>

definition generate_schedules ::
  "(int \<Rightarrow> cp_model \<Rightarrow> solver_response) \<Rightarrow> real \<Rightarrow> ORToolsScheduler
     \<Rightarrow> error + ((Schedule list \<times> diagnostics) \<times> ORToolsScheduler)" where
  "generate_schedules Solve elapsed self =
     (case generate_month_template self of
        Inl e \<Rightarrow> Inl e
      | Inr template_shifts \<Rightarrow>
         (let (shift_vars, m1) = create_variables self template_shifts (model self);
              m2 = add_constraints self template_shifts shift_vars m1;
              m3 = add_objective self template_shifts shift_vars m2;
              response = Solve (max_time_seconds self) m3;
              valid_schedules =
                (if status response = OPTIMAL \<or> status response = FEASIBLE
                 then [parse_solution self template_shifts shift_vars response] else []);
              diag = \<lparr>solver_status = StatusName (status response),
                      solve_time = elapsed,
                      num_conflicts = NumConflicts response,
                      num_branches = NumBranches response,
                      wall_time = WallTime response,
                      diag_relaxed_requirements = relaxed_requirements self,
                      diag_relaxed_shifts = relaxed_shifts self,
                      diag_relaxed_days_off = relaxed_days_off self,
                      valid_count = length valid_schedules\<rparr>
          in Inr ((valid_schedules, diag), self\<lparr>model := m3\<rparr>)))"

text \<open>The model that \<open>generate_schedules\<close> hands to the solver.\<close>

definition built_model :: "ORToolsScheduler \<Rightarrow> error + cp_model" where
  "built_model self =
     (case generate_month_template self of
        Inl e \<Rightarrow> Inl e
      | Inr template_shifts \<Rightarrow>
         (let (shift_vars, m1) = create_variables self template_shifts (model self);
              m2 = add_constraints self template_shifts shift_vars m1
          in Inr (add_objective self template_shifts shift_vars m2)))"

section \<open>data/sheets_manager.py: the availability column of get_employees\<close>

text \<open>
  \<open>SheetsManager.get_employees\<close> parses the availability cell of each record into the
  dictionary \<open>available_shifts\<close>; the functions below are that part of the loop body, on
  the string \<open>str(record[...])\<close>. First the code points of the separators, and
  \<open>str.isspace\<close> as \<open>str.strip()\<close> uses it.
\<close>

definition colon :: nat where "colon = 58"
definition semicolon :: nat where "semicolon = 59"
definition comma :: nat where "comma = 44"

definition isspace :: "nat \<Rightarrow> bool" where
  "isspace c = (c \<in> set [9, 10, 11, 12, 13, 28, 29, 30, 31, 32, 133, 160, 5760,
                          8192, 8193, 8194, 8195, 8196, 8197, 8198, 8199, 8200, 8201, 8202,
                          8232, 8233, 8239, 8287, 12288])"

definition strip :: "pystr \<Rightarrow> pystr" where
  "strip s = rev (dropWhile isspace (rev (dropWhile isspace s)))"

text \<open>\<open>s.split(sep)\<close> for a one-character separator: never an empty list.\<close>

fun split_loop :: "nat \<Rightarrow> pystr \<Rightarrow> pystr \<Rightarrow> pystr list" where
  "split_loop sep cur [] = [rev cur]"
| "split_loop sep cur (c # cs) =
     (if c = sep then rev cur # split_loop sep [] cs else split_loop sep (c # cur) cs)"

definition split :: "nat \<Rightarrow> pystr \<Rightarrow> pystr list" where
  "split sep s = split_loop sep [] s"

text \<open>\<open>entry.split(':', 1)\<close> on an entry that contains the separator: the two parts.\<close>

definition split_once :: "nat \<Rightarrow> pystr \<Rightarrow> pystr \<times> pystr" where
  "split_once sep s = (takeWhile (\<lambda>c. c \<noteq> sep) s, drop 1 (dropWhile (\<lambda>c. c \<noteq> sep) s))"

text \<open>
  The body of the loop over the entries of the per-day form. Python's built-in \<open>int()\<close>
  is the parameter \<open>py_int\<close>: \<open>None\<close> is its \<open>ValueError\<close>.
\<close>

definition parse_entry ::
  "(pystr \<Rightarrow> int option) \<Rightarrow> (int \<rightharpoonup> pystr list) \<Rightarrow> pystr \<Rightarrow> (int \<rightharpoonup> pystr list)" where
  "parse_entry py_int available entry =
     (if colon \<notin> set entry then available
      else (let (day_str, shifts_str) = split_once colon entry in
            case py_int (strip day_str) of
              None \<Rightarrow> available
            | Some day_num \<Rightarrow> available(day_num \<mapsto> map strip (split comma shifts_str))))"

definition parse_availability :: "(pystr \<Rightarrow> int option) \<Rightarrow> pystr \<Rightarrow> (int \<rightharpoonup> pystr list)" where
  "parse_availability py_int cell =
     (let availability_str = strip cell in
      if colon \<in> set availability_str
      then foldl (parse_entry py_int) Map.empty (split semicolon availability_str)
      else (let shs = map strip (split comma availability_str) in
            foldl (\<lambda>available day. available(day \<mapsto> shs)) Map.empty [1, 2, 3, 4, 5, 6, 7]))"

text \<open>
  An instance of \<open>py_int\<close> for the concrete inputs below: it agrees with \<open>int()\<close> on
  strings made of an optional sign and ASCII decimal digits, and on strings with a
  character that is no digit, sign, underscore or white space (a \<open>ValueError\<close>). It does
  not cover the other spellings that \<open>int()\<close> accepts (underscores between digits,
  decimal digits outside ASCII); no input below uses them.
\<close>

definition digit_val :: "nat \<Rightarrow> int option" where
  "digit_val c = (if 48 \<le> c \<and> c \<le> 57 then Some (int c - 48) else None)"

fun digits_loop :: "int \<Rightarrow> pystr \<Rightarrow> int option" where
  "digits_loop acc [] = Some acc"
| "digits_loop acc (c # cs) =
     (case digit_val c of None \<Rightarrow> None | Some d \<Rightarrow> digits_loop (10 * acc + d) cs)"

definition ascii_int :: "pystr \<Rightarrow> int option" where
  "ascii_int s =
     (case strip s of
        [] \<Rightarrow> None
      | c # cs \<Rightarrow>
         (if c = 45 then (if cs = [] then None else map_option uminus (digits_loop 0 cs))
          else if c = 43 then (if cs = [] then None else digits_loop 0 cs)
          else digits_loop 0 (c # cs)))"

section \<open>Concrete inputs\<close>

text \<open>
  The inputs at which the theorems below are evaluated. The ordinal 739257 is Monday
  2025-01-06 and 739258 the Tuesday after it; every employee is available for the three
  shifts of every weekday.
\<close>

definition all_week :: "int \<rightharpoonup> pystr list" where
  "all_week = (\<lambda>d. if 1 \<le> d \<and> d \<le> 7 then Some [Morning, Midday, Evening] else None)"

definition staff :: "string \<Rightarrow> bool \<Rightarrow> bool \<Rightarrow> bool \<Rightarrow> Employee" where
  "staff n leader injector fulltime =
     \<lparr>name = ustr n, is_leader = leader, can_inject = injector,
      available_shifts = all_week, is_fulltime = fulltime\<rparr>"

definition c9_schedule :: Schedule where
  "c9_schedule = \<lparr>shifts =
     [\<lparr>date = 739257, shift_time = Morning, assigned_employees = []\<rparr>,
      \<lparr>date = 739257, shift_time = Midday, assigned_employees = [staff ''A'' False False False]\<rparr>,
      \<lparr>date = 739257, shift_time = Midday, assigned_employees = []\<rparr>]\<rparr>"

definition c1_requirement :: ShiftRequirement where
  "c1_requirement = \<lparr>day_of_week = 1, req_shift_time = Morning, num_people = 1,
     num_leaders = 1, num_injectors = 1, num_leader_or_injector = 1\<rparr>"

definition c1_scheduler :: ORToolsScheduler where
  "c1_scheduler = init [staff ''A'' False False False] [c1_requirement] [] [] 739257 1 300"

definition c1_assignment :: "nat \<Rightarrow> bool" where
  "c1_assignment v = (v = 0)"

definition fixed_solver :: "cp_status \<Rightarrow> (nat \<Rightarrow> bool) \<Rightarrow> int \<Rightarrow> cp_model \<Rightarrow> solver_response" where
  "fixed_solver st \<sigma> max_time m =
     \<lparr>status = st, Value = \<sigma>, NumConflicts = 4, NumBranches = 9, WallTime = 1\<rparr>"

definition c2_scheduler :: ORToolsScheduler where
  "c2_scheduler = init [staff ''A'' False False False] [] [] [] 739258 1 300"

definition c3_time_off :: TimeOffRequest where
  "c3_time_off = \<lparr>to_employee_name = ustr ''Ghost'', to_date = 739257, to_shift_time = Midday\<rparr>"

definition c3_pre_assigned :: PreAssignedShift where
  "c3_pre_assigned = \<lparr>pa_employee_name = ustr ''Ghost'', pa_date = 739257, pa_shift_time = Morning\<rparr>"

definition c3_scheduler :: ORToolsScheduler where
  "c3_scheduler =
     init [staff ''A'' False False False] [] [c3_time_off] [c3_pre_assigned] 739257 1 300"

definition c3_without :: ORToolsScheduler where
  "c3_without = init [staff ''A'' False False False] [] [] [] 739257 1 300"




definition c8_unknown_label :: pystr where
  "c8_unknown_label = ustr ''1:'' @ Morning @ ustr '',X''"

definition c8_per_day :: pystr where
  "c8_per_day = ustr ''x:A;2:B , C''"

definition c8_legacy :: pystr where
  "c8_legacy = ustr '' A, B''"

definition c4_employee :: Employee where
  "c4_employee = staff ''A'' False False True"

definition c4_schedule :: Schedule where
  "c4_schedule = \<lparr>shifts =
     concat (map (\<lambda>d. map (\<lambda>st. \<lparr>date = d, shift_time = st, assigned_employees = [c4_employee]\<rparr>)
                          [Morning, Midday, Evening])
                 [739257, 739258, 739259])
     @ [\<lparr>date = 739260, shift_time = Morning, assigned_employees = [c4_employee]\<rparr>]\<rparr>"

definition c4_five_days :: Schedule where
  "c4_five_days = \<lparr>shifts =
     concat (map (\<lambda>d. map (\<lambda>st. \<lparr>date = d, shift_time = st, assigned_employees = [c4_employee]\<rparr>)
                          [Morning, Midday])
                 [739257, 739258, 739259, 739260, 739261])\<rparr>"

definition c6_shift :: Shift where
  "c6_shift = \<lparr>date = 739257, shift_time = Morning,
     assigned_employees = [staff ''A'' True False False, staff ''B'' False True False]\<rparr>"

definition c6_requirement :: ShiftRequirement where
  "c6_requirement = \<lparr>day_of_week = 1, req_shift_time = Morning, num_people = 2,
     num_leaders = 2, num_injectors = 1, num_leader_or_injector = 2\<rparr>"

section \<open>Lookup, relaxation flags and the requirements check\<close>

lemma get_shift_loop_None:
  "get_shift_loop shs d st = None \<longleftrightarrow> (\<forall>sh \<in> set shs. \<not> (date sh = d \<and> shift_time sh = st))"
  by (induction shs) auto

lemma get_shift_loop_Some:
  "get_shift_loop shs d st = Some sh \<Longrightarrow>
   \<exists>i < length shs. shs ! i = sh \<and> date sh = d \<and> shift_time sh = st
      \<and> (\<forall>j < i. \<not> (date (shs ! j) = d \<and> shift_time (shs ! j) = st))"
proof (induction shs)
  case Nil
  then show ?case by simp
next
  case (Cons a shs)
  show ?case
  proof (cases "date a = d \<and> shift_time a = st")
    case True
    with Cons.prems have "a = sh" by simp
    with True show ?thesis by (intro exI [of _ 0]) simp
  next
    case False
    with Cons.prems have "get_shift_loop shs d st = Some sh" by simp
    from Cons.IH [OF this] obtain i where i: "i < length shs" "shs ! i = sh" "date sh = d"
      "shift_time sh = st" "\<forall>j < i. \<not> (date (shs ! j) = d \<and> shift_time (shs ! j) = st)"
      by blast
    have "\<forall>j < Suc i. \<not> (date ((a # shs) ! j) = d \<and> shift_time ((a # shs) ! j) = st)"
      using False i(5) by (auto simp: less_Suc_eq_0_disj)
    with i show ?thesis by (intro exI [of _ "Suc i"]) simp
  qed
qed

text \<open>
  C9. \<open>get_shift\<close> always returns: \<open>None\<close> exactly when no shift of the schedule has the
  requested date and shift time, and otherwise the shift at the least index whose date and
  shift time both match.
\<close>

theorem get_shift_first_match:
  "(get_shift sched d st = None \<longleftrightarrow>
      (\<forall>sh \<in> set (shifts sched). \<not> (date sh = d \<and> shift_time sh = st))) \<and>
   (\<forall>sh. get_shift sched d st = Some sh \<longrightarrow>
      (\<exists>i < length (shifts sched). shifts sched ! i = sh \<and> date sh = d \<and> shift_time sh = st
         \<and> (\<forall>j < i. \<not> (date (shifts sched ! j) = d \<and> shift_time (shifts sched ! j) = st))))"
  unfolding get_shift_def
  using get_shift_loop_None get_shift_loop_Some by blast

theorem get_shift_first_match_witness:
  "get_shift c9_schedule 739257 Midday = Some (shifts c9_schedule ! 1) \<and>
   (\<exists>i < length (shifts c9_schedule). shifts c9_schedule ! i = shifts c9_schedule ! 1
       \<and> (\<forall>j < i. \<not> (date (shifts c9_schedule ! j) = 739257
                        \<and> shift_time (shifts c9_schedule ! j) = Midday))) \<and>
   get_shift c9_schedule 739258 Midday = None"
proof -
  have found: "get_shift c9_schedule 739257 Midday = Some (shifts c9_schedule ! 1)"
    by (simp add: get_shift_def c9_schedule_def Morning_def Midday_def)
  have absent: "\<forall>sh \<in> set (shifts c9_schedule). \<not> (date sh = 739258 \<and> shift_time sh = Midday)"
    by (simp add: c9_schedule_def)
  from get_shift_first_match [of c9_schedule 739257 Midday] found
  have "\<exists>i < length (shifts c9_schedule). shifts c9_schedule ! i = shifts c9_schedule ! 1
       \<and> (\<forall>j < i. \<not> (date (shifts c9_schedule ! j) = 739257
                        \<and> shift_time (shifts c9_schedule ! j) = Midday))"
    by blast
  moreover from get_shift_first_match [of c9_schedule 739258 Midday] absent
  have "get_shift c9_schedule 739258 Midday = None" by blast
  ultimately show ?thesis using found by blast
qed

text \<open>
  C10. \<open>relax_constraints\<close> overwrites all three flags with its arguments, an omitted
  argument counting as \<open>False\<close>; a flag set by an earlier call and omitted in a later one
  is \<open>False\<close> afterwards.
\<close>

theorem relax_constraints_overwrites:
  "relaxed_requirements (relax_constraints r s d self) = (case r of None \<Rightarrow> False | Some b \<Rightarrow> b) \<and>
   relaxed_shifts (relax_constraints r s d self) = (case s of None \<Rightarrow> False | Some b \<Rightarrow> b) \<and>
   relaxed_days_off (relax_constraints r s d self) = (case d of None \<Rightarrow> False | Some b \<Rightarrow> b) \<and>
   relaxed_requirements (relax_constraints None s d (relax_constraints (Some True) s' d' self)) = False \<and>
   relaxed_shifts (relax_constraints r None d (relax_constraints r' (Some True) d' self)) = False \<and>
   relaxed_days_off (relax_constraints r s None (relax_constraints r' s' (Some True) self)) = False \<and>
   relaxed_requirements (relax_constraints None None None self) = False \<and>
   relaxed_shifts (relax_constraints None None None self) = False \<and>
   relaxed_days_off (relax_constraints None None None self) = False"
  by (simp add: relax_constraints_def)

text \<open>
  C6. \<open>validate_shift_requirements\<close> is true exactly when the number of assigned
  employees equals \<open>num_people\<close> and the number of assigned leaders, of assigned
  injectors and of assigned employees that are leader or injector each reaches its
  minimum, the minimum being halved with floor division, category by category, when
  \<open>relaxed\<close> is set; with all three minima zero the relaxed check is the headcount check
  alone.
\<close>

theorem validate_shift_requirements_iff:
  "(validate_shift_requirements sh req relaxed \<longleftrightarrow>
      int (length (assigned_employees sh)) = num_people req \<and>
      int (length (filter is_leader (assigned_employees sh)))
        \<ge> (if relaxed then num_leaders req div 2 else num_leaders req) \<and>
      int (length (filter can_inject (assigned_employees sh)))
        \<ge> (if relaxed then num_injectors req div 2 else num_injectors req) \<and>
      int (length (filter (\<lambda>emp. is_leader emp \<or> can_inject emp) (assigned_employees sh)))
        \<ge> (if relaxed then num_leader_or_injector req div 2 else num_leader_or_injector req)) \<and>
   (validate_shift_requirements sh
      (req\<lparr>num_leaders := 0, num_injectors := 0, num_leader_or_injector := 0\<rparr>) True \<longleftrightarrow>
      int (length (assigned_employees sh)) = num_people req)"
  by (auto simp: validate_shift_requirements_def count_leaders_def count_injectors_def
      count_leader_or_injector_def)

theorem validate_shift_requirements_iff_witness:
  "int (length (filter is_leader (assigned_employees c6_shift))) = 1 \<and>
   int (length (filter can_inject (assigned_employees c6_shift))) = 1 \<and>
   int (length (filter (\<lambda>emp. is_leader emp \<or> can_inject emp) (assigned_employees c6_shift))) = 2 \<and>
   \<not> validate_shift_requirements c6_shift c6_requirement False \<and>
   validate_shift_requirements c6_shift c6_requirement True \<and>
   \<not> validate_shift_requirements c6_shift (c6_requirement\<lparr>num_injectors := 4\<rparr>) True \<and>
   \<not> validate_shift_requirements c6_shift (c6_requirement\<lparr>num_people := 3\<rparr>) True"
  using validate_shift_requirements_iff [of c6_shift c6_requirement False]
    validate_shift_requirements_iff [of c6_shift c6_requirement True]
    validate_shift_requirements_iff [of c6_shift "c6_requirement\<lparr>num_injectors := 4\<rparr>" True]
    validate_shift_requirements_iff [of c6_shift "c6_requirement\<lparr>num_people := 3\<rparr>" True]
  by (simp add: c6_shift_def c6_requirement_def staff_def)

section \<open>Template and failure of the solve\<close>

lemma upt_seven: "[7 * n..<7 * n + 7] = [7 * n, 7 * n + 1, 7 * n + 2, 7 * n + 3, 7 * n + 4, 7 * n + 5, 7 * n + 6]"
  by (simp add: upt_conv_Cons)

lemma upt_split_seven: "[0..<7 * Suc n] = [0..<7 * n] @ [7 * n..<7 * n + 7]"
proof -
  have "[0..<7 * n + 7] = [0..<7 * n] @ [7 * n..<7 * n + 7]"
    by (rule upt_add_eq_append) simp
  then show ?thesis by (simp add: add.commute)
qed

lemma day_offsets_eq: "day_offsets weeks = map int [0..<7 * nat weeks]"
proof -
  have "concat (map (\<lambda>week. map (\<lambda>day. 7 * int week + day) [0, 1, 2, 3, 4, 5, 6]) [0..<n]) = map int [0..<7 * n]" for n
  proof (induction n)
    case 0 show ?case by simp
  next
    case (Suc n)
    have "map int [0..<7 * Suc n] = map int [0..<7 * n] @ map int [7 * n..<7 * n + 7]"
      by (simp only: upt_split_seven map_append)
    also have "map int [7 * n..<7 * n + 7] = map (\<lambda>day. 7 * int n + day) [0, 1, 2, 3, 4, 5, 6]"
      by (simp only: upt_seven) simp
    finally show ?case using Suc by simp
  qed
  then show ?thesis by (simp add: day_offsets_def)
qed

lemma template_loop_ok:
  "\<forall>off \<in> set offs. date_min \<le> start + off \<and> start + off \<le> date_max \<Longrightarrow>
   template_loop start offs =
     Inr (concat (map (\<lambda>off. map (empty_shift (start + off)) [Morning, Midday, Evening]) offs))"
  by (induction offs) (auto simp: date_add_def)

lemma generate_month_template_ok:
  assumes "date_min \<le> start_date self" and "start_date self + 7 * num_weeks self - 1 \<le> date_max"
  shows "generate_month_template self =
     Inr (concat (map (\<lambda>k. map (empty_shift (start_date self + int k)) [Morning, Midday, Evening])
                      [0..<7 * nat (num_weeks self)]))"
proof -
  have "\<forall>off \<in> set (day_offsets (num_weeks self)).
          date_min \<le> start_date self + off \<and> start_date self + off \<le> date_max"
    using assms by (auto simp: day_offsets_eq)
  then show ?thesis
    unfolding generate_month_template_def
    by (simp add: template_loop_ok day_offsets_eq comp_def)
qed

lemma built_model_Inr:
  "generate_month_template self = Inr t \<Longrightarrow> \<exists>M. built_model self = Inr M"
  by (simp add: built_model_def split: prod.splits)

lemma generate_schedules_via_model:
  assumes "built_model self = Inr M"
  shows "\<exists>scheds.
     generate_schedules Solve elapsed self =
       Inr ((scheds,
             \<lparr>solver_status = StatusName (status (Solve (max_time_seconds self) M)),
              solve_time = elapsed,
              num_conflicts = NumConflicts (Solve (max_time_seconds self) M),
              num_branches = NumBranches (Solve (max_time_seconds self) M),
              wall_time = WallTime (Solve (max_time_seconds self) M),
              diag_relaxed_requirements = relaxed_requirements self,
              diag_relaxed_shifts = relaxed_shifts self,
              diag_relaxed_days_off = relaxed_days_off self,
              valid_count = length scheds\<rparr>), self\<lparr>model := M\<rparr>) \<and>
     (status (Solve (max_time_seconds self) M) \<noteq> OPTIMAL \<and>
      status (Solve (max_time_seconds self) M) \<noteq> FEASIBLE \<longleftrightarrow> scheds = [])"
  using assms
  by (auto simp: built_model_def generate_schedules_def Let_def split: sum.splits prod.splits)

text \<open>
  C5. When the model is built and the solver reports \<open>INFEASIBLE\<close> or \<open>UNKNOWN\<close>,
  \<open>generate_schedules\<close> returns the empty schedule list and diagnostics holding the
  status name, the elapsed time, the solver's conflict and branch counts and wall time,
  the three relaxation flags and \<open>valid_count = 0\<close>.
\<close>

theorem generate_schedules_failure:
  assumes "built_model self = Inr M"
    and "status (Solve (max_time_seconds self) M) = INFEASIBLE
         \<or> status (Solve (max_time_seconds self) M) = UNKNOWN"
  shows "generate_schedules Solve elapsed self =
       Inr (([],
             \<lparr>solver_status = StatusName (status (Solve (max_time_seconds self) M)),
              solve_time = elapsed,
              num_conflicts = NumConflicts (Solve (max_time_seconds self) M),
              num_branches = NumBranches (Solve (max_time_seconds self) M),
              wall_time = WallTime (Solve (max_time_seconds self) M),
              diag_relaxed_requirements = relaxed_requirements self,
              diag_relaxed_shifts = relaxed_shifts self,
              diag_relaxed_days_off = relaxed_days_off self,
              valid_count = 0\<rparr>), self\<lparr>model := M\<rparr>)"
proof -
  from generate_schedules_via_model [of self M Solve elapsed, OF assms(1)]
  obtain scheds where r: "generate_schedules Solve elapsed self =
       Inr ((scheds,
             \<lparr>solver_status = StatusName (status (Solve (max_time_seconds self) M)),
              solve_time = elapsed,
              num_conflicts = NumConflicts (Solve (max_time_seconds self) M),
              num_branches = NumBranches (Solve (max_time_seconds self) M),
              wall_time = WallTime (Solve (max_time_seconds self) M),
              diag_relaxed_requirements = relaxed_requirements self,
              diag_relaxed_shifts = relaxed_shifts self,
              diag_relaxed_days_off = relaxed_days_off self,
              valid_count = length scheds\<rparr>), self\<lparr>model := M\<rparr>)"
    and e: "status (Solve (max_time_seconds self) M) \<noteq> OPTIMAL \<and>
      status (Solve (max_time_seconds self) M) \<noteq> FEASIBLE \<longleftrightarrow> scheds = []"
    by blast
  from assms(2) e have "scheds = []" by auto
  with r show ?thesis by simp
qed

lemma c1_template_ok:
  "\<exists>t. generate_month_template c1_scheduler = Inr t"
  using generate_month_template_ok [of c1_scheduler]
  by (simp add: c1_scheduler_def init_def date_min_def date_max_def)

theorem generate_schedules_failure_witness:
  "built_model c1_scheduler = Inr (projr (built_model c1_scheduler)) \<and>
   status (fixed_solver INFEASIBLE (\<lambda>v. False) (max_time_seconds c1_scheduler)
             (projr (built_model c1_scheduler))) = INFEASIBLE \<and>
   generate_schedules (fixed_solver INFEASIBLE (\<lambda>v. False)) 2 c1_scheduler =
     Inr (([], \<lparr>solver_status = ''INFEASIBLE'', solve_time = 2, num_conflicts = 4,
                num_branches = 9, wall_time = 1, diag_relaxed_requirements = False,
                diag_relaxed_shifts = False, diag_relaxed_days_off = False,
                valid_count = 0\<rparr>),
          c1_scheduler\<lparr>model := projr (built_model c1_scheduler)\<rparr>)"
proof -
  from c1_template_ok built_model_Inr
  have m: "built_model c1_scheduler = Inr (projr (built_model c1_scheduler))"
    by fastforce
  have s: "status (fixed_solver INFEASIBLE (\<lambda>v. False) (max_time_seconds c1_scheduler)
             (projr (built_model c1_scheduler))) = INFEASIBLE
         \<or> status (fixed_solver INFEASIBLE (\<lambda>v. False) (max_time_seconds c1_scheduler)
             (projr (built_model c1_scheduler))) = UNKNOWN"
    by (simp add: fixed_solver_def)
  from generate_schedules_failure
    [of c1_scheduler "projr (built_model c1_scheduler)" "fixed_solver INFEASIBLE (\<lambda>v. False)" 2,
     OF m s] m
  show ?thesis
    by (simp add: fixed_solver_def c1_scheduler_def init_def)
qed

section \<open>The start date is not checked\<close>

lemma upt_week: "[0..<7] = [0, 1, 2, 3, 4, 5, 6::nat]"
  using upt_seven [of 0] by simp

lemma generate_schedules_count:
  assumes "built_model self = Inr M"
  shows "\<exists>scheds diag.
     generate_schedules Solve elapsed self = Inr ((scheds, diag), self\<lparr>model := M\<rparr>) \<and>
     solver_status diag = StatusName (status (Solve (max_time_seconds self) M)) \<and>
     valid_count diag = length scheds \<and>
     length scheds = (if status (Solve (max_time_seconds self) M) = OPTIMAL
                         \<or> status (Solve (max_time_seconds self) M) = FEASIBLE then 1 else 0)"
  using assms
  by (auto simp: built_model_def generate_schedules_def Let_def split: sum.splits prod.splits)

text \<open>
  C2 (as amended). \<open>generate_schedules\<close> does not look at the weekday of \<open>start_date\<close>.
  For every start date, Monday or not, whose window stays within the range of dates, the
  template holds three slots for each of the \<open>7 * num_weeks\<close> days from \<open>start_date\<close>
  on, the model is built from it and the solver is run on that model; the result is never
  an error.
\<close>

theorem generate_schedules_any_start:
  assumes "date_min \<le> start_date self"
    and "start_date self + 7 * num_weeks self - 1 \<le> date_max"
  shows "generate_month_template self =
     Inr (concat (map (\<lambda>k. map (empty_shift (start_date self + int k)) [Morning, Midday, Evening])
                      [0..<7 * nat (num_weeks self)])) \<and>
     (\<exists>M scheds diag.
        built_model self = Inr M \<and>
        generate_schedules Solve elapsed self = Inr ((scheds, diag), self\<lparr>model := M\<rparr>) \<and>
        solver_status diag = StatusName (status (Solve (max_time_seconds self) M)))"
proof -
  note t = generate_month_template_ok [OF assms]
  from built_model_Inr [OF t] obtain M where M: "built_model self = Inr M" ..
  from generate_schedules_count [of self M Solve elapsed, OF M] M t
  show ?thesis by blast
qed

theorem generate_schedules_any_start_witness:
  "date_min \<le> start_date c2_scheduler \<and>
   start_date c2_scheduler + 7 * num_weeks c2_scheduler - 1 \<le> date_max \<and>
   weekday (start_date c2_scheduler) = 1 \<and>
   generate_month_template c2_scheduler =
     Inr (concat (map (\<lambda>k. map (empty_shift (739258 + int k)) [Morning, Midday, Evening])
                      [0..<7]))"
proof -
  have a: "date_min \<le> start_date c2_scheduler"
    by (simp add: c2_scheduler_def init_def date_min_def)
  have b: "start_date c2_scheduler + 7 * num_weeks c2_scheduler - 1 \<le> date_max"
    by (simp add: c2_scheduler_def init_def date_max_def)
  have c: "weekday (start_date c2_scheduler) = 1"
    by (simp add: c2_scheduler_def init_def weekday_def)
  from generate_schedules_any_start [OF a b] a b c show ?thesis
    by (simp add: c2_scheduler_def init_def)
qed

theorem non_monday_start_counterexample:
  "weekday (start_date c2_scheduler) \<noteq> 0 \<and>
   \<not> isl (generate_schedules (fixed_solver OPTIMAL (\<lambda>v. False)) 0 c2_scheduler) \<and>
   solver_status (snd (fst (projr (generate_schedules (fixed_solver OPTIMAL (\<lambda>v. False)) 0
                                      c2_scheduler)))) = ''OPTIMAL'' \<and>
   valid_count (snd (fst (projr (generate_schedules (fixed_solver OPTIMAL (\<lambda>v. False)) 0
                                      c2_scheduler)))) = 1 \<and>
   map_sum id (map date) (generate_month_template c2_scheduler) =
     Inr [739258, 739258, 739258, 739259, 739259, 739259, 739260, 739260, 739260,
          739261, 739261, 739261, 739262, 739262, 739262, 739263, 739263, 739263,
          739264, 739264, 739264]"
proof -
  have w: "weekday (start_date c2_scheduler) \<noteq> 0"
    by (simp add: c2_scheduler_def init_def weekday_def)
  have t: "generate_month_template c2_scheduler =
     Inr (concat (map (\<lambda>k. map (empty_shift (739258 + int k)) [Morning, Midday, Evening])
                      [0..<7]))"
    using generate_month_template_ok [of c2_scheduler]
    by (simp add: c2_scheduler_def init_def date_min_def date_max_def)
  from built_model_Inr [OF t] obtain M where M: "built_model c2_scheduler = Inr M" ..
  from generate_schedules_count [of c2_scheduler M "fixed_solver OPTIMAL (\<lambda>v. False)" 0, OF M]
  obtain scheds diag where
    r: "generate_schedules (fixed_solver OPTIMAL (\<lambda>v. False)) 0 c2_scheduler =
          Inr ((scheds, diag), c2_scheduler\<lparr>model := M\<rparr>)"
    and s: "solver_status diag = ''OPTIMAL''" and v: "valid_count diag = 1"
    by (auto simp: fixed_solver_def)
  have d: "map_sum id (map date) (generate_month_template c2_scheduler) =
     Inr [739258, 739258, 739258, 739259, 739259, 739259, 739260, 739260, 739260,
          739261, 739261, 739261, 739262, 739262, 739262, 739263, 739263, 739263,
          739264, 739264, 739264]"
    by (simp add: t empty_shift_def upt_week)
  from w r s v d show ?thesis by simp
qed

section \<open>Records that name an unknown employee\<close>

lemma first_index_None: "first_index P i xs = None \<longleftrightarrow> (\<forall>x \<in> set xs. \<not> P x)"
  by (induction xs arbitrary: i) auto

lemma pre_assignment_constraint_unknown:
  "pa_employee_name pre \<notin> name ` set (employees self) \<Longrightarrow>
   pre_assignment_constraint self shs shift_vars pre = []"
proof -
  assume "pa_employee_name pre \<notin> name ` set (employees self)"
  then have "first_index (\<lambda>employee. name employee = pa_employee_name pre) 0 (employees self) = None"
    by (fastforce simp: first_index_None image_iff)
  then show ?thesis
    by (simp add: pre_assignment_constraint_def split: option.splits)
qed

lemma pre_assignment_constraint_cong:
  "employees s1 = employees s2 \<Longrightarrow>
   pre_assignment_constraint s1 = pre_assignment_constraint s2"
  by (auto simp: fun_eq_iff pre_assignment_constraint_def split: option.splits)

lemma time_off_loop_unknown:
  "to_employee_name req \<noteq> name employee \<Longrightarrow>
   time_off_loop (ts1 @ req # ts2) employee sh = time_off_loop (ts1 @ ts2) employee sh"
  by (induction ts1) auto

lemma availability_constraints_unknown:
  assumes "to_employee_name req \<notin> name ` set (employees s1)"
    and "employees s1 = employees s2"
    and "time_off_requests s1 = ts1 @ req # ts2"
    and "time_off_requests s2 = ts1 @ ts2"
  shows "availability_constraints s1 shs shift_vars = availability_constraints s2 shs shift_vars"
proof -
  have "validate_availability sh employee (ts1 @ req # ts2)
        = validate_availability sh employee (ts1 @ ts2)"
    if "employee \<in> set (employees s1)" for sh employee
  proof -
    from that assms(1) have "to_employee_name req \<noteq> name employee" by auto
    then show ?thesis by (simp add: validate_availability_def time_off_loop_unknown)
  qed
  then have "\<And>p. p \<in> set (enumerate 0 (employees s1)) \<Longrightarrow>
      (\<lambda>(emp_idx, employee). concat (map (\<lambda>(shift_idx, sh).
         if \<not> validate_availability sh employee (ts1 @ req # ts2)
         then [EqC (BoolVar (shift_vars ! emp_idx ! shift_idx)) (Num 0)] else [])
         (enumerate 0 shs))) p =
      (\<lambda>(emp_idx, employee). concat (map (\<lambda>(shift_idx, sh).
         if \<not> validate_availability sh employee (ts1 @ ts2)
         then [EqC (BoolVar (shift_vars ! emp_idx ! shift_idx)) (Num 0)] else [])
         (enumerate 0 shs))) p"
    by (auto simp: in_set_enumerate_eq)
  then show ?thesis
    unfolding availability_constraints_def assms(3,4) assms(2) [symmetric]
    by (intro arg_cong [where f = concat] map_cong refl) 
qed

text \<open>What each part of the build reads of the scheduler.\<close>

lemma solve_cong:
  assumes "employees s1 = employees s2" and "start_date s1 = start_date s2"
    and "num_weeks s1 = num_weeks s2" and "max_time_seconds s1 = max_time_seconds s2"
    and "relaxed_requirements s1 = relaxed_requirements s2"
    and "relaxed_shifts s1 = relaxed_shifts s2"
    and "relaxed_days_off s1 = relaxed_days_off s2"
    and "model s1 = model s2"
    and "\<And>shs vars. availability_constraints s1 shs vars = availability_constraints s2 shs vars"
    and "\<And>shs vars m. add_pre_assignment_constraints s1 shs vars m
                        = add_pre_assignment_constraints s2 shs vars m"
    and "\<And>shs vars m. add_shift_requirement_constraints s1 shs vars m
                        = add_shift_requirement_constraints s2 shs vars m"
  shows "built_model s1 = built_model s2 \<and>
         map_sum id fst (generate_schedules Solve elapsed s1)
           = map_sum id fst (generate_schedules Solve elapsed s2)"
proof -
  have t: "generate_month_template s1 = generate_month_template s2"
    by (simp add: generate_month_template_def assms)
  have v: "create_variables s1 = create_variables s2"
    by (simp add: fun_eq_iff create_variables_def assms)
  have d: "add_daily_limit_constraints s1 = add_daily_limit_constraints s2"
    by (simp add: fun_eq_iff add_daily_limit_constraints_def assms)
  have fw: "fulltime_week s1 = fulltime_week s2"
    by (simp add: fun_eq_iff fulltime_week_def assms)
  have f: "add_fulltime_weekly_constraints s1 = add_fulltime_weekly_constraints s2"
    by (simp add: fun_eq_iff add_fulltime_weekly_constraints_def fw assms cong: if_cong)
  have c: "add_constraints s1 = add_constraints s2"
    by (simp add: fun_eq_iff add_constraints_def add_availability_constraints_def assms d f)
  have ob: "add_objective s1 = add_objective s2"
    by (simp add: fun_eq_iff add_objective_def objective_loop_def assms)
  have p: "parse_solution s1 = parse_solution s2"
    by (simp add: fun_eq_iff parse_solution_def assms)
  show ?thesis
    by (simp add: built_model_def generate_schedules_def t v c ob p assms Let_def
        split: sum.splits prod.splits)
qed

lemma add_pre_assignment_unknown:
  assumes "pa_employee_name pre \<notin> name ` set (employees s1)"
    and "employees s1 = employees s2"
    and "pre_assigned_shifts s1 = ps1 @ pre # ps2"
    and "pre_assigned_shifts s2 = ps1 @ ps2"
  shows "add_pre_assignment_constraints s1 shs vars m
         = add_pre_assignment_constraints s2 shs vars m"
  using assms pre_assignment_constraint_unknown [of pre s1 shs vars]
    pre_assignment_constraint_cong [of s1 s2]
  by (simp add: add_pre_assignment_constraints_def)

lemma add_pre_assignment_cong:
  "employees s1 = employees s2 \<Longrightarrow> pre_assigned_shifts s1 = pre_assigned_shifts s2 \<Longrightarrow>
   add_pre_assignment_constraints s1 shs vars m = add_pre_assignment_constraints s2 shs vars m"
  using pre_assignment_constraint_cong [of s1 s2]
  by (simp add: add_pre_assignment_constraints_def)

lemma availability_constraints_cong:
  "employees s1 = employees s2 \<Longrightarrow> time_off_requests s1 = time_off_requests s2 \<Longrightarrow>
   availability_constraints s1 shs vars = availability_constraints s2 shs vars"
  by (simp add: availability_constraints_def)

lemma shift_requirement_constraints_cong:
  "employees s1 = employees s2 \<Longrightarrow> relaxed_requirements s1 = relaxed_requirements s2 \<Longrightarrow>
   shift_requirement_constraints s1 = shift_requirement_constraints s2"
  by (simp add: fun_eq_iff shift_requirement_constraints_def)

lemma add_shift_requirement_cong:
  "employees s1 = employees s2 \<Longrightarrow> relaxed_requirements s1 = relaxed_requirements s2 \<Longrightarrow>
   requirement_map s1 = requirement_map s2 \<Longrightarrow>
   add_shift_requirement_constraints s1 shs vars m
     = add_shift_requirement_constraints s2 shs vars m"
  using shift_requirement_constraints_cong [of s1 s2]
  by (simp add: add_shift_requirement_constraints_def cong: option.case_cong)

lemma generate_schedules_Inr:
  assumes "date_min \<le> start_date self"
    and "start_date self + 7 * num_weeks self - 1 \<le> date_max"
  shows "\<not> isl (generate_schedules Solve elapsed self)"
proof -
  from built_model_Inr [OF generate_month_template_ok [OF assms]]
  obtain M where M: "built_model self = Inr M" ..
  from generate_schedules_count [of self M Solve elapsed, OF M] show ?thesis by auto
qed

text \<open>
  C3 (as amended). A pre-assignment or a time-off request that names an employee absent
  from the roster raises no error and is dropped without trace: the model built, the
  schedules and the diagnostics returned are those of the same input without the record.
\<close>

theorem unknown_employee_records_dropped:
  "(pa_employee_name pre \<notin> name ` set (employees self) \<longrightarrow>
      built_model (self\<lparr>pre_assigned_shifts := ps1 @ pre # ps2\<rparr>)
        = built_model (self\<lparr>pre_assigned_shifts := ps1 @ ps2\<rparr>) \<and>
      map_sum id fst (generate_schedules Solve elapsed (self\<lparr>pre_assigned_shifts := ps1 @ pre # ps2\<rparr>))
        = map_sum id fst (generate_schedules Solve elapsed (self\<lparr>pre_assigned_shifts := ps1 @ ps2\<rparr>))) \<and>
   (to_employee_name req \<notin> name ` set (employees self) \<longrightarrow>
      built_model (self\<lparr>time_off_requests := ts1 @ req # ts2\<rparr>)
        = built_model (self\<lparr>time_off_requests := ts1 @ ts2\<rparr>) \<and>
      map_sum id fst (generate_schedules Solve elapsed (self\<lparr>time_off_requests := ts1 @ req # ts2\<rparr>))
        = map_sum id fst (generate_schedules Solve elapsed (self\<lparr>time_off_requests := ts1 @ ts2\<rparr>)))"
proof (intro conjI impI)
  assume u: "pa_employee_name pre \<notin> name ` set (employees self)"
  let ?s1 = "self\<lparr>pre_assigned_shifts := ps1 @ pre # ps2\<rparr>"
  let ?s2 = "self\<lparr>pre_assigned_shifts := ps1 @ ps2\<rparr>"
  have pre: "add_pre_assignment_constraints ?s1 shs vars m
             = add_pre_assignment_constraints ?s2 shs vars m" for shs vars m
    using u by (intro add_pre_assignment_unknown [of pre _ _ ps1 ps2]) simp_all
  have av: "availability_constraints ?s1 shs vars = availability_constraints ?s2 shs vars"
    for shs vars
    by (rule availability_constraints_cong) simp_all
  have rq: "add_shift_requirement_constraints ?s1 shs vars m
            = add_shift_requirement_constraints ?s2 shs vars m" for shs vars m
    by (rule add_shift_requirement_cong) simp_all
  have "built_model ?s1 = built_model ?s2 \<and>
        map_sum id fst (generate_schedules Solve elapsed ?s1)
          = map_sum id fst (generate_schedules Solve elapsed ?s2)"
    by (rule solve_cong) (simp_all add: pre av rq)
  then show "built_model ?s1 = built_model ?s2"
    and "map_sum id fst (generate_schedules Solve elapsed ?s1)
          = map_sum id fst (generate_schedules Solve elapsed ?s2)"
    by blast+
next
  assume u: "to_employee_name req \<notin> name ` set (employees self)"
  let ?s1 = "self\<lparr>time_off_requests := ts1 @ req # ts2\<rparr>"
  let ?s2 = "self\<lparr>time_off_requests := ts1 @ ts2\<rparr>"
  have pre: "add_pre_assignment_constraints ?s1 shs vars m
             = add_pre_assignment_constraints ?s2 shs vars m" for shs vars m
    by (rule add_pre_assignment_cong) simp_all
  have av: "availability_constraints ?s1 shs vars = availability_constraints ?s2 shs vars"
    for shs vars
    using u by (intro availability_constraints_unknown [of req _ _ ts1 ts2]) simp_all
  have rq: "add_shift_requirement_constraints ?s1 shs vars m
            = add_shift_requirement_constraints ?s2 shs vars m" for shs vars m
    by (rule add_shift_requirement_cong) simp_all
  have "built_model ?s1 = built_model ?s2 \<and>
        map_sum id fst (generate_schedules Solve elapsed ?s1)
          = map_sum id fst (generate_schedules Solve elapsed ?s2)"
    by (rule solve_cong) (simp_all add: pre av rq)
  then show "built_model ?s1 = built_model ?s2"
    and "map_sum id fst (generate_schedules Solve elapsed ?s1)
          = map_sum id fst (generate_schedules Solve elapsed ?s2)"
    by blast+
qed

lemma c3_names:
  "pa_employee_name c3_pre_assigned \<notin> name ` set (employees c3_without)"
  "to_employee_name c3_time_off \<notin> name ` set (employees c3_without)"
  by (simp_all add: c3_pre_assigned_def c3_time_off_def c3_without_def init_def staff_def ustr_def)

theorem unknown_employee_records_dropped_witness:
  "pa_employee_name c3_pre_assigned \<notin> name ` set (employees c3_without) \<and>
   to_employee_name c3_time_off \<notin> name ` set (employees c3_without) \<and>
   built_model (c3_without\<lparr>pre_assigned_shifts := [c3_pre_assigned]\<rparr>) = built_model c3_without \<and>
   built_model (c3_without\<lparr>time_off_requests := [c3_time_off]\<rparr>) = built_model c3_without"
proof -
  have e: "c3_without\<lparr>pre_assigned_shifts := []\<rparr> = c3_without"
    "c3_without\<lparr>time_off_requests := []\<rparr> = c3_without"
    by (simp_all add: c3_without_def init_def)
  from unknown_employee_records_dropped
         [of c3_pre_assigned c3_without "[]" "[]" _ _ c3_time_off "[]" "[]"] c3_names e
  show ?thesis by simp
qed

theorem unknown_employee_counterexample:
  "pa_employee_name c3_pre_assigned \<notin> name ` set (employees c3_scheduler) \<and>
   to_employee_name c3_time_off \<notin> name ` set (employees c3_scheduler) \<and>
   \<not> isl (generate_schedules (fixed_solver OPTIMAL (\<lambda>v. False)) 0 c3_scheduler) \<and>
   built_model c3_scheduler = built_model c3_without"
proof -
  have n: "pa_employee_name c3_pre_assigned \<notin> name ` set (employees c3_scheduler)"
    "to_employee_name c3_time_off \<notin> name ` set (employees c3_scheduler)"
    by (simp_all add: c3_pre_assigned_def c3_time_off_def c3_scheduler_def init_def staff_def
        ustr_def)
  have r: "\<not> isl (generate_schedules (fixed_solver OPTIMAL (\<lambda>v. False)) 0 c3_scheduler)"
    by (rule generate_schedules_Inr)
       (simp_all add: c3_scheduler_def init_def date_min_def date_max_def)
  have pre: "add_pre_assignment_constraints c3_scheduler shs vars m
             = add_pre_assignment_constraints c3_without shs vars m" for shs vars m
    using n(1)
    by (intro add_pre_assignment_unknown [of c3_pre_assigned _ _ "[]" "[]"])
       (simp_all add: c3_scheduler_def c3_without_def init_def)
  have av: "availability_constraints c3_scheduler shs vars
            = availability_constraints c3_without shs vars" for shs vars
    using n(2)
    by (intro availability_constraints_unknown [of c3_time_off _ _ "[]" "[]"])
       (simp_all add: c3_scheduler_def c3_without_def init_def)
  have rq: "add_shift_requirement_constraints c3_scheduler shs vars m
            = add_shift_requirement_constraints c3_without shs vars m" for shs vars m
    by (rule add_shift_requirement_cong) (simp_all add: c3_scheduler_def c3_without_def init_def)
  have "built_model c3_scheduler = built_model c3_without \<and>
        map_sum id fst (generate_schedules (fixed_solver OPTIMAL (\<lambda>v. False)) 0 c3_scheduler)
          = map_sum id fst (generate_schedules (fixed_solver OPTIMAL (\<lambda>v. False)) 0 c3_without)"
    by (rule solve_cong) (simp_all add: pre av rq, simp_all add: c3_scheduler_def c3_without_def init_def)
  with n r show ?thesis by blast
qed

section \<open>Capability minima over an empty pool\<close>

lemma shift_requirement_constraints_empty_pool:
  "indices_where is_leader (employees self) = [] \<Longrightarrow>
     shift_requirement_constraints self vars idx (r\<lparr>num_leaders := n\<rparr>)
       = shift_requirement_constraints self vars idx r"
  "indices_where can_inject (employees self) = [] \<Longrightarrow>
     shift_requirement_constraints self vars idx (r\<lparr>num_injectors := n\<rparr>)
       = shift_requirement_constraints self vars idx r"
  "indices_where (\<lambda>emp. is_leader emp \<or> can_inject emp) (employees self) = [] \<Longrightarrow>
     shift_requirement_constraints self vars idx (r\<lparr>num_leader_or_injector := n\<rparr>)
       = shift_requirement_constraints self vars idx r"
  by (simp_all add: shift_requirement_constraints_def)

lemma built_model_requirement_map:
  assumes "\<And>vars idx r. shift_requirement_constraints self vars idx (upd r)
                          = shift_requirement_constraints self vars idx r"
  shows "built_model (self\<lparr>requirement_map := \<lambda>k. map_option upd (requirement_map self k)\<rparr>)
         = built_model self"
proof -
  let ?s1 = "self\<lparr>requirement_map := \<lambda>k. map_option upd (requirement_map self k)\<rparr>"
  have src: "shift_requirement_constraints ?s1 = shift_requirement_constraints self"
    by (rule shift_requirement_constraints_cong) simp_all
  have rq: "add_shift_requirement_constraints ?s1 shs vars m
            = add_shift_requirement_constraints self shs vars m" for shs vars m
    by (simp add: add_shift_requirement_constraints_def src assms option.case_eq_if
        option.map_sel cong: if_cong)
  have pre: "add_pre_assignment_constraints ?s1 shs vars m
             = add_pre_assignment_constraints self shs vars m" for shs vars m
    by (rule add_pre_assignment_cong) simp_all
  have av: "availability_constraints ?s1 shs vars = availability_constraints self shs vars"
    for shs vars
    by (rule availability_constraints_cong) simp_all
  have "built_model ?s1 = built_model self \<and>
        map_sum id fst (generate_schedules Solve 0 ?s1)
          = map_sum id fst (generate_schedules Solve 0 self)"
    for Solve :: "int \<Rightarrow> cp_model \<Rightarrow> solver_response"
    by (rule solve_cong) (simp_all add: pre av rq)
  then show ?thesis by blast
qed

text \<open>
  C1 (as amended). When no employee carries a capability flag, the solver posts no
  constraint for that category, whatever the minimum: the model that is built does not
  change when the minimum of that category is replaced by any other value in every
  requirement, so a positive minimum over an empty pool constrains nothing.
\<close>

theorem empty_pool_posts_no_constraint:
  "(indices_where is_leader (employees self) = [] \<longrightarrow>
      built_model (self\<lparr>requirement_map :=
          \<lambda>k. map_option (\<lambda>r. r\<lparr>num_leaders := f r\<rparr>) (requirement_map self k)\<rparr>)
        = built_model self) \<and>
   (indices_where can_inject (employees self) = [] \<longrightarrow>
      built_model (self\<lparr>requirement_map :=
          \<lambda>k. map_option (\<lambda>r. r\<lparr>num_injectors := f r\<rparr>) (requirement_map self k)\<rparr>)
        = built_model self) \<and>
   (indices_where (\<lambda>emp. is_leader emp \<or> can_inject emp) (employees self) = [] \<longrightarrow>
      built_model (self\<lparr>requirement_map :=
          \<lambda>k. map_option (\<lambda>r. r\<lparr>num_leader_or_injector := f r\<rparr>) (requirement_map self k)\<rparr>)
        = built_model self)"
  by (intro conjI impI built_model_requirement_map)
     (simp_all add: shift_requirement_constraints_empty_pool)

lemma c1_pools:
  "indices_where is_leader (employees c1_scheduler) = []"
  "indices_where can_inject (employees c1_scheduler) = []"
  "indices_where (\<lambda>emp. is_leader emp \<or> can_inject emp) (employees c1_scheduler) = []"
  by (simp_all add: indices_where_def c1_scheduler_def init_def staff_def)

theorem empty_pool_posts_no_constraint_witness:
  "indices_where is_leader (employees c1_scheduler) = [] \<and>
   indices_where can_inject (employees c1_scheduler) = [] \<and>
   indices_where (\<lambda>emp. is_leader emp \<or> can_inject emp) (employees c1_scheduler) = [] \<and>
   requirement_map c1_scheduler (1, Morning) = Some c1_requirement \<and>
   num_leaders c1_requirement = 1 \<and>
   built_model (c1_scheduler\<lparr>requirement_map :=
       \<lambda>k. map_option (\<lambda>r. r\<lparr>num_leaders := 0\<rparr>) (requirement_map c1_scheduler k)\<rparr>)
     = built_model c1_scheduler"
proof -
  have r: "requirement_map c1_scheduler (1, Morning) = Some c1_requirement"
    "num_leaders c1_requirement = 1"
    by (simp_all add: c1_scheduler_def init_def c1_requirement_def)
  from empty_pool_posts_no_constraint [of c1_scheduler "\<lambda>r. 0"] c1_pools r
  show ?thesis by simp
qed

lemma c1_model_satisfied:
  "(case built_model c1_scheduler of Inl e \<Rightarrow> False | Inr m \<Rightarrow> satisfies c1_assignment m)"
  apply (simp add: built_model_def generate_month_template_def c1_scheduler_def init_def
      day_offsets_def date_add_def date_min_def date_max_def create_variables_def
      NewBoolVar_def CpModel_def empty_shift_def)
  apply (simp add: add_constraints_def add_availability_constraints_def
      availability_constraints_def validate_availability_def can_work_on_def staff_def
      all_week_def weekday_def add_all_def Morning_def Midday_def Evening_def)
  apply (simp add: add_pre_assignment_constraints_def add_shift_requirement_constraints_def
      shift_requirement_constraints_def add_all_def Add_def indices_where_def weekday_def
      c1_requirement_def Morning_def Midday_def Evening_def py_sum_def capability_minimum_def)
  apply (simp add: add_daily_limit_constraints_def shifts_by_date_def add_all_def Add_def
      py_sum_def)
  apply (simp add: add_fulltime_weekly_constraints_def staff_def)
  apply (simp add: add_objective_def objective_loop_def objective_day_def shifts_by_date_def
      NewBoolVar_def Add_def daily_sum_def py_sum_def Maximize_def)
  apply (simp add: satisfies_def c1_assignment_def)
  done

theorem empty_pool_counterexample:
  "requirement_map c1_scheduler (1, Morning) = Some c1_requirement \<and>
   0 < num_leaders c1_requirement \<and> 0 < num_injectors c1_requirement \<and>
   0 < num_leader_or_injector c1_requirement \<and>
   filter is_leader (employees c1_scheduler) = [] \<and>
   filter can_inject (employees c1_scheduler) = [] \<and>
   \<not> relaxed_requirements c1_scheduler \<and>
   (case built_model c1_scheduler of Inl e \<Rightarrow> False | Inr m \<Rightarrow> satisfies c1_assignment m)"
  using c1_model_satisfied
  by (simp add: c1_scheduler_def init_def c1_requirement_def staff_def)

section \<open>The objective\<close>

lemma lval_foldl_Plus: "lval \<sigma> (foldl Plus e es) = lval \<sigma> e + sum_list (map (lval \<sigma>) es)"
  by (induction es arbitrary: e) auto

















section \<open>The availability column and the full-time check\<close>

lemmas parse_eval = parse_availability_def parse_entry_def split_def split_once_def strip_def
  isspace_def ascii_int_def digit_val_def colon_def semicolon_def comma_def ustr_def
  Morning_def Midday_def Evening_def Let_def

lemma foldl_skip:
  "(\<And>a x. x \<in> set xs \<Longrightarrow> \<not> keep x \<Longrightarrow> f a x = a) \<Longrightarrow>
   foldl f a xs = foldl f a (filter keep xs)"
  by (induction xs arbitrary: a) auto

text \<open>
  C8 (as amended). In the per-day form the entries without a colon and the entries whose
  weekday token \<open>int()\<close> rejects contribute nothing; an accepted entry stores under its
  weekday every label of its list, stripped of surrounding white space and otherwise as
  written, known or not. In the legacy form the same list of stripped labels is stored
  under each weekday 1 to 7 and under no other key.
\<close>

theorem parse_availability_forms:
  "(colon \<in> set (strip cell) \<longrightarrow>
      parse_availability py_int cell =
        foldl (parse_entry py_int) Map.empty
          (filter (\<lambda>entry. colon \<in> set entry
                            \<and> py_int (strip (fst (split_once colon entry))) \<noteq> None)
                  (split semicolon (strip cell)))) \<and>
   (colon \<in> set entry \<and> py_int (strip (fst (split_once colon entry))) = Some day_num \<longrightarrow>
      parse_entry py_int available entry =
        available(day_num \<mapsto> map strip (split comma (snd (split_once colon entry))))) \<and>
   (colon \<notin> set (strip cell) \<longrightarrow>
      parse_availability py_int cell =
        (\<lambda>day. if 1 \<le> day \<and> day \<le> 7 then Some (map strip (split comma (strip cell)))
               else None))"
proof (intro conjI impI)
  assume c: "colon \<in> set (strip cell)"
  have "foldl (parse_entry py_int) Map.empty (split semicolon (strip cell)) =
        foldl (parse_entry py_int) Map.empty
          (filter (\<lambda>entry. colon \<in> set entry
                            \<and> py_int (strip (fst (split_once colon entry))) \<noteq> None)
                  (split semicolon (strip cell)))"
    by (rule foldl_skip) (auto simp: parse_entry_def split: prod.splits)
  with c show "parse_availability py_int cell =
        foldl (parse_entry py_int) Map.empty
          (filter (\<lambda>entry. colon \<in> set entry
                            \<and> py_int (strip (fst (split_once colon entry))) \<noteq> None)
                  (split semicolon (strip cell)))"
    by (simp add: parse_availability_def)
next
  assume "colon \<in> set entry \<and> py_int (strip (fst (split_once colon entry))) = Some day_num"
  then show "parse_entry py_int available entry =
        available(day_num \<mapsto> map strip (split comma (snd (split_once colon entry))))"
    by (cases "split_once colon entry") (simp add: parse_entry_def)
next
  assume "colon \<notin> set (strip cell)"
  then show "parse_availability py_int cell =
        (\<lambda>day. if 1 \<le> day \<and> day \<le> 7 then Some (map strip (split comma (strip cell)))
               else None)"
    by (auto simp: parse_availability_def Let_def fun_eq_iff)
qed

theorem parse_availability_forms_witness:
  "colon \<in> set (strip c8_per_day) \<and>
   filter (\<lambda>entry. colon \<in> set entry
                     \<and> ascii_int (strip (fst (split_once colon entry))) \<noteq> None)
          (split semicolon (strip c8_per_day)) = [ustr ''2:B , C''] \<and>
   parse_availability ascii_int c8_per_day = [2 \<mapsto> [ustr ''B'', ustr ''C'']] \<and>
   colon \<in> set (ustr ''2:B , C'') \<and>
   ascii_int (strip (fst (split_once colon (ustr ''2:B , C'')))) = Some 2 \<and>
   parse_entry ascii_int Map.empty (ustr ''2:B , C'') = [2 \<mapsto> [ustr ''B'', ustr ''C'']] \<and>
   colon \<notin> set (strip c8_legacy) \<and>
   parse_availability ascii_int c8_legacy 3 = Some [ustr ''A'', ustr ''B''] \<and>
   parse_availability ascii_int c8_legacy 8 = None"
proof -
  have a: "colon \<in> set (strip c8_per_day)"
    by (simp add: c8_per_day_def parse_eval)
  have f: "filter (\<lambda>entry. colon \<in> set entry
                     \<and> ascii_int (strip (fst (split_once colon entry))) \<noteq> None)
          (split semicolon (strip c8_per_day)) = [ustr ''2:B , C'']"
    by (simp add: c8_per_day_def parse_eval)
  have b: "colon \<in> set (ustr ''2:B , C'')"
    "ascii_int (strip (fst (split_once colon (ustr ''2:B , C'')))) = Some 2"
    by (simp_all add: parse_eval)
  have s: "map strip (split comma (snd (split_once colon (ustr ''2:B , C''))))
           = [ustr ''B'', ustr ''C'']"
    by (simp add: parse_eval)
  have l: "colon \<notin> set (strip c8_legacy)"
    "map strip (split comma (strip c8_legacy)) = [ustr ''A'', ustr ''B'']"
    by (simp_all add: c8_legacy_def parse_eval)
  note t1 = parse_availability_forms [of c8_per_day ascii_int "ustr ''2:B , C''" 2 Map.empty]
  note t2 = parse_availability_forms [of c8_legacy ascii_int "ustr ''2:B , C''" 2 Map.empty]
  from t1 a f b s have p: "parse_availability ascii_int c8_per_day = [2 \<mapsto> [ustr ''B'', ustr ''C'']]"
    and e: "parse_entry ascii_int Map.empty (ustr ''2:B , C'') = [2 \<mapsto> [ustr ''B'', ustr ''C'']]"
    by simp_all
  from t2 l have "parse_availability ascii_int c8_legacy 3 = Some [ustr ''A'', ustr ''B'']"
    and "parse_availability ascii_int c8_legacy 8 = None"
    by simp_all
  with a f b l p e show ?thesis by blast
qed

theorem unknown_label_kept_counterexample:
  "parse_availability ascii_int c8_unknown_label 1 = Some [Morning, ustr ''X''] \<and>
   ustr ''X'' \<notin> {Morning, Midday, Evening}"
  by (simp add: c8_unknown_label_def parse_eval)

text \<open>
  C4. A full-time employee with ten shifts in one week on four distinct dates meets the
  weekly count and has at most five worked dates, yet the strict check returns
  \<open>False\<close>: it demands exactly two days off. The relaxed days-off check accepts the
  same schedule, and the strict check accepts ten shifts on five dates.
\<close>

theorem fulltime_four_days_rejected:
  "is_fulltime c4_employee \<and>
   map (\<lambda>sh. week_start_of (date sh)) (get_employee_shifts c4_schedule (name c4_employee))
     = replicate 10 739257 \<and>
   remdups (map date (get_employee_shifts c4_schedule (name c4_employee)))
     = [739257, 739258, 739259, 739260] \<and>
   validate_fulltime_constraints c4_schedule c4_employee False False = Inr False \<and>
   validate_fulltime_constraints c4_schedule c4_employee False True = Inr True \<and>
   validate_fulltime_constraints c4_five_days c4_employee False False = Inr True"
  by (simp add: c4_employee_def c4_schedule_def c4_five_days_def staff_def get_employee_shifts_def
      has_employee_def week_start_of_def weekday_def validate_fulltime_constraints_def
      group_by_week_def check_week_def date_add_def date_min_def date_max_def
      eval_nat_numeral)

end
